theory Spec2Isabelle
  imports Main
begin

section \<open>JavaScript values and objects\<close>

text \<open>
  The reporter of \<^verbatim>\<open>ChatTextAreaAutocompleteTelemetry.ts\<close> never computes on a number: it
  only copies numbers into the object it forwards. The type of numbers is therefore a type
  parameter \<open>'n\<close>. A value is one of the JavaScript primitives the file handles or an
  object; an object is the map of its own enumerable properties, where \<open>None\<close> is an absent
  key and \<open>Some JUndefined\<close> a key that is present and holds \<^verbatim>\<open>undefined\<close>.
\<close>

datatype 'n jsval =
    JUndefined
  | JNull
  | JBool bool
  | JNum 'n
  | JStr string
  | JObject "string \<Rightarrow> 'n jsval option"

type_synonym 'n props = "string \<Rightarrow> 'n jsval option"

text \<open>Reading an optional string property (\<^verbatim>\<open>modelId?: string\<close>): an omitted property reads as
  \<^verbatim>\<open>undefined\<close>.\<close>

fun optString :: "string option \<Rightarrow> 'n jsval" where
  "optString None = JUndefined"
| "optString (Some s) = JStr s"

section \<open>The data of the source\<close>

text \<open>\<^verbatim>\<open>interface ChatAutocompleteContext\<close>, lines 7 to 18.\<close>

record ChatAutocompleteContext =
  modelId :: "string option"
  provider :: "string option"
  usedFim :: bool
  hasVisibleCodeContext :: bool
  hasClipboardContext :: bool

text \<open>The seven members of the enumeration \<^verbatim>\<open>TelemetryEventName\<close> that the file names.\<close>

datatype TelemetryEventName =
    CHAT_AUTOCOMPLETE_SUGGESTION_REQUESTED
  | CHAT_AUTOCOMPLETE_LLM_REQUEST_COMPLETED
  | CHAT_AUTOCOMPLETE_LLM_REQUEST_FAILED
  | CHAT_AUTOCOMPLETE_SUGGESTION_RETURNED
  | CHAT_AUTOCOMPLETE_SUGGESTION_FILTERED
  | CHAT_AUTOCOMPLETE_SUGGESTION_ACCEPTED
  | CHAT_AUTOCOMPLETE_SUGGESTION_DISMISSED

text \<open>The string-literal union of \<^verbatim>\<open>captureSuggestionFiltered\<close> (line 121) and the string each
  member is at run time.\<close>

datatype FilterReason =
    EmptyResponse
  | UnwantedPattern
  | TooShort
  | ModelNotLoaded
  | NoCredentials

fun filterReasonString :: "FilterReason \<Rightarrow> string" where
  "filterReasonString EmptyResponse = ''empty_response''"
| "filterReasonString UnwantedPattern = ''unwanted_pattern''"
| "filterReasonString TooShort = ''too_short''"
| "filterReasonString ModelNotLoaded = ''model_not_loaded''"
| "filterReasonString NoCredentials = ''no_credentials''"

text \<open>The string-literal union of \<^verbatim>\<open>captureSuggestionDismissed\<close> (line 148).\<close>

datatype DismissReason =
    Escape
  | ContinuedTyping
  | ClickedAway
  | Timeout

fun dismissReasonString :: "DismissReason \<Rightarrow> string" where
  "dismissReasonString Escape = ''escape''"
| "dismissReasonString ContinuedTyping = ''continued_typing''"
| "dismissReasonString ClickedAway = ''clicked_away''"
| "dismissReasonString Timeout = ''timeout''"

section \<open>Effects: the telemetry sink and the console\<close>

text \<open>A call either returns or throws a value.\<close>

datatype 'n completion = Normal | Throw "'n jsval"

text \<open>
  What the file imports and does not define is a parameter of every operation:
  \<^item> \<open>eventValue\<close>, the string each member of \<^verbatim>\<open>TelemetryEventName\<close> is at run time (package
    \<^verbatim>\<open>@roo-code/types\<close>), which the template literal of the log line prints;
  \<^item> \<open>sinkCaptureEvent\<close>, the method \<^verbatim>\<open>captureEvent\<close> of the sink (package
    \<^verbatim>\<open>@roo-code/telemetry\<close>): from the sink's state, the event and the properties (\<open>None\<close> when
    the call passes one argument only) to a completion and the sink's next state.
\<close>

record ('n, 's) externals =
  eventValue :: "TelemetryEventName \<Rightarrow> string"
  sinkCaptureEvent :: "'s \<Rightarrow> TelemetryEventName \<Rightarrow> 'n props option \<Rightarrow> 'n completion \<times> 's"

text \<open>
  The state the operations run in: the singleton \<^verbatim>\<open>TelemetryService.instance\<close>
  (\<^verbatim>\<open>TelemetryService.hasInstance()\<close> holds when there is one), the calls made to its
  \<^verbatim>\<open>captureEvent\<close> so far, each with its arguments, and the arguments of every
  \<^verbatim>\<open>console.log\<close> so far. The operations are defined on every extension of this record,
  so that they also run in a state that holds a heap of objects.
\<close>

record ('n, 's) world =
  telemetryInstance :: "'s option"
  calls :: "(TelemetryEventName \<times> 'n props option) list"
  console :: "(string \<times> 'n props option) list"

definition hasInstance :: "('n, 's, 'z) world_scheme \<Rightarrow> bool" where
  "hasInstance w = (telemetryInstance w \<noteq> None)"

text \<open>\<^verbatim>\<open>TelemetryService.instance.captureEvent(event, properties)\<close> on the sink in state \<open>s\<close>:
  the call is recorded whether it returns or throws.\<close>

definition sinkCall ::
  "('n, 's) externals \<Rightarrow> 's \<Rightarrow> TelemetryEventName \<Rightarrow> 'n props option \<Rightarrow> ('n, 's, 'z) world_scheme
     \<Rightarrow> 'n completion \<times> ('n, 's, 'z) world_scheme" where
  "sinkCall X s event properties w =
     (case sinkCaptureEvent X s event properties of
        (r, s') \<Rightarrow>
          (r, w\<lparr>telemetryInstance := Some s', calls := calls w @ [(event, properties)]\<rparr>))"

definition consoleLog :: "string \<Rightarrow> 'n props option \<Rightarrow> ('n, 's, 'z) world_scheme \<Rightarrow> ('n, 's, 'z) world_scheme" where
  "consoleLog line properties w = w\<lparr>console := console w @ [(line, properties)]\<rparr>"

section \<open>The class \<^verbatim>\<open>ChatTextAreaAutocompleteTelemetry\<close>\<close>

text \<open>The private method \<^verbatim>\<open>captureEvent\<close>, lines 27 to 37. The test of line 28,
  \<^verbatim>\<open>TelemetryService.hasInstance()\<close>, is the case distinction on the singleton. There is no
  \<^verbatim>\<open>try\<close>: an exception of the sink leaves the method before the log line.\<close>

definition captureEvent ::
  "('n, 's) externals \<Rightarrow> TelemetryEventName \<Rightarrow> 'n props option \<Rightarrow> ('n, 's, 'z) world_scheme
     \<Rightarrow> 'n completion \<times> ('n, 's, 'z) world_scheme" where
  "captureEvent X event properties w =
     (case telemetryInstance w of
        None \<Rightarrow> (Normal, w)
      | Some s \<Rightarrow>
          (if properties \<noteq> None then
             (case sinkCall X s event properties w of
                (Throw e, w') \<Rightarrow> (Throw e, w')
              | (Normal, w') \<Rightarrow>
                  (Normal,
                   consoleLog (''Chat Autocomplete Telemetry event: '' @ eventValue X event)
                     properties w'))
           else
             (case sinkCall X s event None w of
                (Throw e, w') \<Rightarrow> (Throw e, w')
              | (Normal, w') \<Rightarrow>
                  (Normal,
                   consoleLog (''Chat Autocomplete Telemetry event: '' @ eventValue X event)
                     None w'))))"

text \<open>\<^verbatim>\<open>captureSuggestionRequested\<close>, lines 46 to 55.\<close>

definition captureSuggestionRequested ::
  "('n, 's) externals \<Rightarrow> ChatAutocompleteContext \<Rightarrow> 'n \<Rightarrow> ('n, 's, 'z) world_scheme
     \<Rightarrow> 'n completion \<times> ('n, 's, 'z) world_scheme" where
  "captureSuggestionRequested X context userTextLength =
     captureEvent X CHAT_AUTOCOMPLETE_SUGGESTION_REQUESTED
       (Some [''modelId'' \<mapsto> optString (modelId context),
              ''provider'' \<mapsto> optString (provider context),
              ''usedFim'' \<mapsto> JBool (usedFim context),
              ''hasVisibleCodeContext'' \<mapsto> JBool (hasVisibleCodeContext context),
              ''hasClipboardContext'' \<mapsto> JBool (hasClipboardContext context),
              ''userTextLength'' \<mapsto> JNum userTextLength])"

text \<open>\<^verbatim>\<open>captureLlmRequestCompleted\<close>, lines 63 to 77. The spread copies every own property of
  \<^verbatim>\<open>properties\<close>, whatever its keys; the three keys written after it overwrite.\<close>

definition captureLlmRequestCompleted ::
  "('n, 's) externals \<Rightarrow> 'n props \<Rightarrow> ChatAutocompleteContext \<Rightarrow> ('n, 's, 'z) world_scheme
     \<Rightarrow> 'n completion \<times> ('n, 's, 'z) world_scheme" where
  "captureLlmRequestCompleted X properties context =
     captureEvent X CHAT_AUTOCOMPLETE_LLM_REQUEST_COMPLETED
       (Some (properties(''modelId'' \<mapsto> optString (modelId context),
                         ''provider'' \<mapsto> optString (provider context),
                         ''usedFim'' \<mapsto> JBool (usedFim context))))"

text \<open>\<^verbatim>\<open>captureLlmRequestFailed\<close>, lines 85 to 95.\<close>

definition captureLlmRequestFailed ::
  "('n, 's) externals \<Rightarrow> 'n props \<Rightarrow> ChatAutocompleteContext \<Rightarrow> ('n, 's, 'z) world_scheme
     \<Rightarrow> 'n completion \<times> ('n, 's, 'z) world_scheme" where
  "captureLlmRequestFailed X properties context =
     captureEvent X CHAT_AUTOCOMPLETE_LLM_REQUEST_FAILED
       (Some (properties(''modelId'' \<mapsto> optString (modelId context),
                         ''provider'' \<mapsto> optString (provider context),
                         ''usedFim'' \<mapsto> JBool (usedFim context))))"

text \<open>\<^verbatim>\<open>captureSuggestionReturned\<close>, lines 104 to 111.\<close>

definition captureSuggestionReturned ::
  "('n, 's) externals \<Rightarrow> ChatAutocompleteContext \<Rightarrow> 'n \<Rightarrow> ('n, 's, 'z) world_scheme
     \<Rightarrow> 'n completion \<times> ('n, 's, 'z) world_scheme" where
  "captureSuggestionReturned X context suggestionLength =
     captureEvent X CHAT_AUTOCOMPLETE_SUGGESTION_RETURNED
       (Some [''modelId'' \<mapsto> optString (modelId context),
              ''provider'' \<mapsto> optString (provider context),
              ''usedFim'' \<mapsto> JBool (usedFim context),
              ''suggestionLength'' \<mapsto> JNum suggestionLength])"

text \<open>\<^verbatim>\<open>captureSuggestionFiltered\<close>, lines 120 to 130.\<close>

definition captureSuggestionFiltered ::
  "('n, 's) externals \<Rightarrow> FilterReason \<Rightarrow> ChatAutocompleteContext \<Rightarrow> ('n, 's, 'z) world_scheme
     \<Rightarrow> 'n completion \<times> ('n, 's, 'z) world_scheme" where
  "captureSuggestionFiltered X reason context =
     captureEvent X CHAT_AUTOCOMPLETE_SUGGESTION_FILTERED
       (Some [''reason'' \<mapsto> JStr (filterReasonString reason),
              ''modelId'' \<mapsto> optString (modelId context),
              ''provider'' \<mapsto> optString (provider context),
              ''usedFim'' \<mapsto> JBool (usedFim context)])"

text \<open>\<^verbatim>\<open>captureSuggestionAccepted\<close>, lines 137 to 141.\<close>

definition captureSuggestionAccepted ::
  "('n, 's) externals \<Rightarrow> 'n \<Rightarrow> ('n, 's, 'z) world_scheme \<Rightarrow> 'n completion \<times> ('n, 's, 'z) world_scheme" where
  "captureSuggestionAccepted X suggestionLength =
     captureEvent X CHAT_AUTOCOMPLETE_SUGGESTION_ACCEPTED
       (Some [''suggestionLength'' \<mapsto> JNum suggestionLength])"

text \<open>\<^verbatim>\<open>captureSuggestionDismissed\<close>, lines 148 to 152.\<close>

definition captureSuggestionDismissed ::
  "('n, 's) externals \<Rightarrow> DismissReason \<Rightarrow> ('n, 's, 'z) world_scheme \<Rightarrow> 'n completion \<times> ('n, 's, 'z) world_scheme" where
  "captureSuggestionDismissed X dismissReason =
     captureEvent X CHAT_AUTOCOMPLETE_SUGGESTION_DISMISSED
       (Some [''dismissReason'' \<mapsto> JStr (dismissReasonString dismissReason)])"

section \<open>Callers\<close>

text \<open>A call of one of the seven public methods, with its arguments.\<close>

datatype 'n captureCall =
    SuggestionRequested ChatAutocompleteContext 'n
  | LlmRequestCompleted "'n props" ChatAutocompleteContext
  | LlmRequestFailed "'n props" ChatAutocompleteContext
  | SuggestionReturned ChatAutocompleteContext 'n
  | SuggestionFiltered FilterReason ChatAutocompleteContext
  | SuggestionAccepted 'n
  | SuggestionDismissed DismissReason

fun invoke ::
  "('n, 's) externals \<Rightarrow> 'n captureCall \<Rightarrow> ('n, 's, 'z) world_scheme
     \<Rightarrow> 'n completion \<times> ('n, 's, 'z) world_scheme" where
  "invoke X (SuggestionRequested context userTextLength) w =
     captureSuggestionRequested X context userTextLength w"
| "invoke X (LlmRequestCompleted properties context) w =
     captureLlmRequestCompleted X properties context w"
| "invoke X (LlmRequestFailed properties context) w =
     captureLlmRequestFailed X properties context w"
| "invoke X (SuggestionReturned context suggestionLength) w =
     captureSuggestionReturned X context suggestionLength w"
| "invoke X (SuggestionFiltered reason context) w =
     captureSuggestionFiltered X reason context w"
| "invoke X (SuggestionAccepted suggestionLength) w =
     captureSuggestionAccepted X suggestionLength w"
| "invoke X (SuggestionDismissed dismissReason) w =
     captureSuggestionDismissed X dismissReason w"

section \<open>The methods on objects passed by reference\<close>

text \<open>
  JavaScript passes objects by reference: a method that is given \<^verbatim>\<open>context\<close> could assign to
  its properties, and any method could assign to properties of \<^verbatim>\<open>this\<close>. To state what a
  call does to these objects, the seven methods are modelled a second time, on a heap. A
  reference is a number; the heap maps a reference to the object allocated there, and an
  object is the map of its own properties. Reading a property that the object does not hold
  yields \<^verbatim>\<open>undefined\<close>; reading a property through a reference that holds no object throws a
  \<^verbatim>\<open>TypeError\<close>, as JavaScript does for \<^verbatim>\<open>undefined.modelId\<close>. In \<^verbatim>\<open>this.captureEvent(...)\<close> the
  method is looked up on \<^verbatim>\<open>this\<close> first, then the object literal is evaluated, then the
  private method runs. Numbers, strings and the \<^verbatim>\<open>properties\<close> argument, which the spread
  reads once, are passed as values.
\<close>

type_synonym ref = nat

record ('n, 's) program = "('n, 's) world" +
  heap :: "ref \<Rightarrow> 'n props option"

definition getProp :: "'n props \<Rightarrow> string \<Rightarrow> 'n jsval" where
  "getProp obj k = (case obj k of None \<Rightarrow> JUndefined | Some v \<Rightarrow> v)"

definition typeError :: "'n jsval" where
  "typeError = JObject [''name'' \<mapsto> JStr ''TypeError'']"

text \<open>The object of a context of the declared type: an omitted optional property is absent.\<close>

definition contextObject :: "ChatAutocompleteContext \<Rightarrow> 'n props" where
  "contextObject c =
     [''usedFim'' \<mapsto> JBool (usedFim c),
      ''hasVisibleCodeContext'' \<mapsto> JBool (hasVisibleCodeContext c),
      ''hasClipboardContext'' \<mapsto> JBool (hasClipboardContext c)]
     ++ (case modelId c of None \<Rightarrow> Map.empty | Some s \<Rightarrow> [''modelId'' \<mapsto> JStr s])
     ++ (case provider c of None \<Rightarrow> Map.empty | Some s \<Rightarrow> [''provider'' \<mapsto> JStr s])"

text \<open>\<^verbatim>\<open>captureSuggestionRequested\<close>, lines 46 to 55, on references.\<close>

definition captureSuggestionRequestedAt ::
  "('n, 's) externals \<Rightarrow> ref \<Rightarrow> ref \<Rightarrow> 'n \<Rightarrow> ('n, 's, 'z) program_scheme
     \<Rightarrow> 'n completion \<times> ('n, 's, 'z) program_scheme" where
  "captureSuggestionRequestedAt X this context userTextLength st =
     (case heap st this of
        None \<Rightarrow> (Throw typeError, st)
      | Some reporter \<Rightarrow>
          (case heap st context of
             None \<Rightarrow> (Throw typeError, st)
           | Some c \<Rightarrow>
               captureEvent X CHAT_AUTOCOMPLETE_SUGGESTION_REQUESTED
                 (Some [''modelId'' \<mapsto> getProp c ''modelId'',
                        ''provider'' \<mapsto> getProp c ''provider'',
                        ''usedFim'' \<mapsto> getProp c ''usedFim'',
                        ''hasVisibleCodeContext'' \<mapsto> getProp c ''hasVisibleCodeContext'',
                        ''hasClipboardContext'' \<mapsto> getProp c ''hasClipboardContext'',
                        ''userTextLength'' \<mapsto> JNum userTextLength]) st))"

text \<open>\<^verbatim>\<open>captureLlmRequestCompleted\<close>, lines 63 to 77, on references.\<close>

definition captureLlmRequestCompletedAt ::
  "('n, 's) externals \<Rightarrow> ref \<Rightarrow> 'n props \<Rightarrow> ref \<Rightarrow> ('n, 's, 'z) program_scheme
     \<Rightarrow> 'n completion \<times> ('n, 's, 'z) program_scheme" where
  "captureLlmRequestCompletedAt X this properties context st =
     (case heap st this of
        None \<Rightarrow> (Throw typeError, st)
      | Some reporter \<Rightarrow>
          (case heap st context of
             None \<Rightarrow> (Throw typeError, st)
           | Some c \<Rightarrow>
               captureEvent X CHAT_AUTOCOMPLETE_LLM_REQUEST_COMPLETED
                 (Some (properties(''modelId'' \<mapsto> getProp c ''modelId'',
                                   ''provider'' \<mapsto> getProp c ''provider'',
                                   ''usedFim'' \<mapsto> getProp c ''usedFim''))) st))"

text \<open>\<^verbatim>\<open>captureLlmRequestFailed\<close>, lines 85 to 95, on references.\<close>

definition captureLlmRequestFailedAt ::
  "('n, 's) externals \<Rightarrow> ref \<Rightarrow> 'n props \<Rightarrow> ref \<Rightarrow> ('n, 's, 'z) program_scheme
     \<Rightarrow> 'n completion \<times> ('n, 's, 'z) program_scheme" where
  "captureLlmRequestFailedAt X this properties context st =
     (case heap st this of
        None \<Rightarrow> (Throw typeError, st)
      | Some reporter \<Rightarrow>
          (case heap st context of
             None \<Rightarrow> (Throw typeError, st)
           | Some c \<Rightarrow>
               captureEvent X CHAT_AUTOCOMPLETE_LLM_REQUEST_FAILED
                 (Some (properties(''modelId'' \<mapsto> getProp c ''modelId'',
                                   ''provider'' \<mapsto> getProp c ''provider'',
                                   ''usedFim'' \<mapsto> getProp c ''usedFim''))) st))"

text \<open>\<^verbatim>\<open>captureSuggestionReturned\<close>, lines 104 to 111, on references.\<close>

definition captureSuggestionReturnedAt ::
  "('n, 's) externals \<Rightarrow> ref \<Rightarrow> ref \<Rightarrow> 'n \<Rightarrow> ('n, 's, 'z) program_scheme
     \<Rightarrow> 'n completion \<times> ('n, 's, 'z) program_scheme" where
  "captureSuggestionReturnedAt X this context suggestionLength st =
     (case heap st this of
        None \<Rightarrow> (Throw typeError, st)
      | Some reporter \<Rightarrow>
          (case heap st context of
             None \<Rightarrow> (Throw typeError, st)
           | Some c \<Rightarrow>
               captureEvent X CHAT_AUTOCOMPLETE_SUGGESTION_RETURNED
                 (Some [''modelId'' \<mapsto> getProp c ''modelId'',
                        ''provider'' \<mapsto> getProp c ''provider'',
                        ''usedFim'' \<mapsto> getProp c ''usedFim'',
                        ''suggestionLength'' \<mapsto> JNum suggestionLength]) st))"

text \<open>\<^verbatim>\<open>captureSuggestionFiltered\<close>, lines 120 to 130, on references.\<close>

definition captureSuggestionFilteredAt ::
  "('n, 's) externals \<Rightarrow> ref \<Rightarrow> FilterReason \<Rightarrow> ref \<Rightarrow> ('n, 's, 'z) program_scheme
     \<Rightarrow> 'n completion \<times> ('n, 's, 'z) program_scheme" where
  "captureSuggestionFilteredAt X this reason context st =
     (case heap st this of
        None \<Rightarrow> (Throw typeError, st)
      | Some reporter \<Rightarrow>
          (case heap st context of
             None \<Rightarrow> (Throw typeError, st)
           | Some c \<Rightarrow>
               captureEvent X CHAT_AUTOCOMPLETE_SUGGESTION_FILTERED
                 (Some [''reason'' \<mapsto> JStr (filterReasonString reason),
                        ''modelId'' \<mapsto> getProp c ''modelId'',
                        ''provider'' \<mapsto> getProp c ''provider'',
                        ''usedFim'' \<mapsto> getProp c ''usedFim'']) st))"

text \<open>\<^verbatim>\<open>captureSuggestionAccepted\<close>, lines 137 to 141, on references.\<close>

definition captureSuggestionAcceptedAt ::
  "('n, 's) externals \<Rightarrow> ref \<Rightarrow> 'n \<Rightarrow> ('n, 's, 'z) program_scheme
     \<Rightarrow> 'n completion \<times> ('n, 's, 'z) program_scheme" where
  "captureSuggestionAcceptedAt X this suggestionLength st =
     (case heap st this of
        None \<Rightarrow> (Throw typeError, st)
      | Some reporter \<Rightarrow>
          captureEvent X CHAT_AUTOCOMPLETE_SUGGESTION_ACCEPTED
            (Some [''suggestionLength'' \<mapsto> JNum suggestionLength]) st)"

text \<open>\<^verbatim>\<open>captureSuggestionDismissed\<close>, lines 148 to 152, on references.\<close>

definition captureSuggestionDismissedAt ::
  "('n, 's) externals \<Rightarrow> ref \<Rightarrow> DismissReason \<Rightarrow> ('n, 's, 'z) program_scheme
     \<Rightarrow> 'n completion \<times> ('n, 's, 'z) program_scheme" where
  "captureSuggestionDismissedAt X this dismissReason st =
     (case heap st this of
        None \<Rightarrow> (Throw typeError, st)
      | Some reporter \<Rightarrow>
          captureEvent X CHAT_AUTOCOMPLETE_SUGGESTION_DISMISSED
            (Some [''dismissReason'' \<mapsto> JStr (dismissReasonString dismissReason)]) st)"

text \<open>A call of one of the seven methods with its arguments, the context as a reference, and
  a caller that makes the calls of a list on one reporter, one after the other, whatever
  each one's completion.\<close>

datatype 'n methodCall =
    RequestedAt ref 'n
  | CompletedAt "'n props" ref
  | FailedAt "'n props" ref
  | ReturnedAt ref 'n
  | FilteredAt FilterReason ref
  | AcceptedAt 'n
  | DismissedAt DismissReason

fun invokeAt ::
  "('n, 's) externals \<Rightarrow> ref \<Rightarrow> 'n methodCall \<Rightarrow> ('n, 's, 'z) program_scheme
     \<Rightarrow> 'n completion \<times> ('n, 's, 'z) program_scheme" where
  "invokeAt X this (RequestedAt context userTextLength) st =
     captureSuggestionRequestedAt X this context userTextLength st"
| "invokeAt X this (CompletedAt properties context) st =
     captureLlmRequestCompletedAt X this properties context st"
| "invokeAt X this (FailedAt properties context) st =
     captureLlmRequestFailedAt X this properties context st"
| "invokeAt X this (ReturnedAt context suggestionLength) st =
     captureSuggestionReturnedAt X this context suggestionLength st"
| "invokeAt X this (FilteredAt reason context) st =
     captureSuggestionFilteredAt X this reason context st"
| "invokeAt X this (AcceptedAt suggestionLength) st =
     captureSuggestionAcceptedAt X this suggestionLength st"
| "invokeAt X this (DismissedAt dismissReason) st =
     captureSuggestionDismissedAt X this dismissReason st"

fun runCallsAt ::
  "('n, 's) externals \<Rightarrow> ref \<Rightarrow> 'n methodCall list \<Rightarrow> ('n, 's, 'z) program_scheme
     \<Rightarrow> ('n, 's, 'z) program_scheme" where
  "runCallsAt X this [] st = st"
| "runCallsAt X this (c # cs) st = runCallsAt X this cs (snd (invokeAt X this c st))"

section \<open>Shapes of values\<close>

text \<open>The declared types of the two \<^verbatim>\<open>properties\<close> parameters (lines 64 to 68 and line 86): the
  keys the type names and no other, a number under \<^verbatim>\<open>latencyMs\<close>, a string under
  \<^verbatim>\<open>error\<close>, and under an optional key a number or \<^verbatim>\<open>undefined\<close>.\<close>

fun isNumber :: "'n jsval option \<Rightarrow> bool" where
  "isNumber (Some (JNum n)) = True"
| "isNumber v = False"

fun isString :: "'n jsval option \<Rightarrow> bool" where
  "isString (Some (JStr s)) = True"
| "isString v = False"

fun isOptionalNumber :: "'n jsval option \<Rightarrow> bool" where
  "isOptionalNumber None = True"
| "isOptionalNumber (Some JUndefined) = True"
| "isOptionalNumber (Some (JNum n)) = True"
| "isOptionalNumber v = False"

definition llmCompletedProperties :: "'n props \<Rightarrow> bool" where
  "llmCompletedProperties p =
     (isNumber (p ''latencyMs'') \<and> isOptionalNumber (p ''inputTokens'') \<and>
      isOptionalNumber (p ''outputTokens'') \<and>
      dom p \<subseteq> {''latencyMs'', ''inputTokens'', ''outputTokens''})"

definition llmFailedProperties :: "'n props \<Rightarrow> bool" where
  "llmFailedProperties p =
     (isNumber (p ''latencyMs'') \<and> isString (p ''error'') \<and>
      dom p \<subseteq> {''latencyMs'', ''error''})"

text \<open>The values the specification calls flat, in its words: a string, a number or a boolean.
  The second predicate admits \<^verbatim>\<open>undefined\<close> as well. Neither admits an object.\<close>

fun stringNumberBoolean :: "'n jsval \<Rightarrow> bool" where
  "stringNumberBoolean (JStr s) = True"
| "stringNumberBoolean (JNum n) = True"
| "stringNumberBoolean (JBool b) = True"
| "stringNumberBoolean v = False"

fun primitiveOrUndefined :: "'n jsval \<Rightarrow> bool" where
  "primitiveOrUndefined JUndefined = True"
| "primitiveOrUndefined v = stringNumberBoolean v"

definition allValues :: "('n jsval \<Rightarrow> bool) \<Rightarrow> 'n props \<Rightarrow> bool" where
  "allValues P m = (\<forall>k v. m k = Some v \<longrightarrow> P v)"

section \<open>Fixtures of the test suite\<close>

text \<open>\<^verbatim>\<open>mockContext\<close> and \<^verbatim>\<open>minimalContext\<close> of the tests, a sink that records and returns (the
  tests' \<^verbatim>\<open>vi.fn()\<close>), a sink that throws, and the two states of the singleton. The tests do
  not fix the strings of the enumeration: \<open>memberName\<close> stands in for them.\<close>

definition mockContext :: ChatAutocompleteContext where
  "mockContext =
     \<lparr>modelId = Some ''test-model'', provider = Some ''test-provider'', usedFim = True,
      hasVisibleCodeContext = True, hasClipboardContext = False\<rparr>"

definition minimalContext :: ChatAutocompleteContext where
  "minimalContext =
     \<lparr>modelId = None, provider = None, usedFim = False,
      hasVisibleCodeContext = False, hasClipboardContext = False\<rparr>"

fun memberName :: "TelemetryEventName \<Rightarrow> string" where
  "memberName CHAT_AUTOCOMPLETE_SUGGESTION_REQUESTED = ''CHAT_AUTOCOMPLETE_SUGGESTION_REQUESTED''"
| "memberName CHAT_AUTOCOMPLETE_LLM_REQUEST_COMPLETED = ''CHAT_AUTOCOMPLETE_LLM_REQUEST_COMPLETED''"
| "memberName CHAT_AUTOCOMPLETE_LLM_REQUEST_FAILED = ''CHAT_AUTOCOMPLETE_LLM_REQUEST_FAILED''"
| "memberName CHAT_AUTOCOMPLETE_SUGGESTION_RETURNED = ''CHAT_AUTOCOMPLETE_SUGGESTION_RETURNED''"
| "memberName CHAT_AUTOCOMPLETE_SUGGESTION_FILTERED = ''CHAT_AUTOCOMPLETE_SUGGESTION_FILTERED''"
| "memberName CHAT_AUTOCOMPLETE_SUGGESTION_ACCEPTED = ''CHAT_AUTOCOMPLETE_SUGGESTION_ACCEPTED''"
| "memberName CHAT_AUTOCOMPLETE_SUGGESTION_DISMISSED = ''CHAT_AUTOCOMPLETE_SUGGESTION_DISMISSED''"

definition mockSink :: "(int, unit) externals" where
  "mockSink =
     \<lparr>eventValue = memberName,
      sinkCaptureEvent = (\<lambda>s event properties. (Normal, s))\<rparr>"

definition throwingSink :: "(int, unit) externals" where
  "throwingSink =
     \<lparr>eventValue = memberName,
      sinkCaptureEvent = (\<lambda>s event properties. (Throw (JStr ''sink failure''), s))\<rparr>"

definition sinkPresent :: "(int, unit) world" where
  "sinkPresent = \<lparr>telemetryInstance = Some (), calls = [], console = []\<rparr>"

definition sinkAbsent :: "(int, unit) world" where
  "sinkAbsent = \<lparr>telemetryInstance = None, calls = [], console = []\<rparr>"

text \<open>A caller's state with a sink and two objects on the heap: at reference 0 a reporter
  (the constructor sets no property), at reference 1 the context of the tests.\<close>

definition callerState :: "(int, unit) program" where
  "callerState =
     \<lparr>telemetryInstance = Some (), calls = [], console = [],
      heap = [0 \<mapsto> Map.empty, 1 \<mapsto> contextObject mockContext]\<rparr>"

section \<open>The dispatch routine\<close>

lemma captureEvent_absent:
  "\<not> hasInstance w \<Longrightarrow> captureEvent X event properties w = (Normal, w)"
  by (simp add: captureEvent_def hasInstance_def)

lemma captureEvent_calls:
  "hasInstance w \<Longrightarrow>
   calls (snd (captureEvent X event properties w)) = calls w @ [(event, properties)]"
  by (auto simp: captureEvent_def hasInstance_def sinkCall_def consoleLog_def
      split: option.splits prod.splits completion.splits)

lemma captureEvent_console:
  "console (snd (captureEvent X event properties w)) =
   (if hasInstance w \<and> fst (captureEvent X event properties w) = Normal
    then console w @ [(''Chat Autocomplete Telemetry event: '' @ eventValue X event, properties)]
    else console w)"
  by (auto simp: captureEvent_def hasInstance_def sinkCall_def consoleLog_def
      split: option.splits prod.splits completion.splits)

lemma captureEvent_more:
  "world.more (snd (captureEvent X event properties w)) = world.more w"
  by (auto simp: captureEvent_def sinkCall_def consoleLog_def
      split: option.splits prod.splits completion.splits)

lemma captureEvent_hasInstance:
  "hasInstance (snd (captureEvent X event properties w)) = hasInstance w"
  by (auto simp: captureEvent_def hasInstance_def sinkCall_def consoleLog_def
      split: option.splits prod.splits completion.splits)

section \<open>The capture operations\<close>

lemmas capture_defs =
  captureSuggestionRequested_def captureLlmRequestCompleted_def captureLlmRequestFailed_def
  captureSuggestionReturned_def captureSuggestionFiltered_def captureSuggestionAccepted_def
  captureSuggestionDismissed_def

text \<open>
  C1. When the sink exists, each of the seven public operations calls the sink's
  \<^verbatim>\<open>captureEvent\<close> exactly once: the record of calls grows by one entry. The entry holds the
  operation's own member of \<^verbatim>\<open>TelemetryEventName\<close> and a mapping \<open>m\<close> whose keys are exactly the
  documented ones, each with the value the caller passed or the value read from the
  context. For the two operations that spread \<^verbatim>\<open>properties\<close>, the documented keys are those of
  \<^verbatim>\<open>properties\<close> together with \<^verbatim>\<open>modelId\<close>, \<^verbatim>\<open>provider\<close> and \<^verbatim>\<open>usedFim\<close>.
\<close>

theorem capture_forwards_exactly_once:
  assumes "hasInstance w"
  shows
    "(\<exists>m. calls (snd (captureSuggestionRequested X context userTextLength w)) =
            calls w @ [(CHAT_AUTOCOMPLETE_SUGGESTION_REQUESTED, Some m)] \<and>
          dom m = {''modelId'', ''provider'', ''usedFim'', ''hasVisibleCodeContext'',
                   ''hasClipboardContext'', ''userTextLength''} \<and>
          m ''modelId'' = Some (optString (modelId context)) \<and>
          m ''provider'' = Some (optString (provider context)) \<and>
          m ''usedFim'' = Some (JBool (usedFim context)) \<and>
          m ''hasVisibleCodeContext'' = Some (JBool (hasVisibleCodeContext context)) \<and>
          m ''hasClipboardContext'' = Some (JBool (hasClipboardContext context)) \<and>
          m ''userTextLength'' = Some (JNum userTextLength)) \<and>
     (\<exists>m. calls (snd (captureLlmRequestCompleted X properties context w)) =
            calls w @ [(CHAT_AUTOCOMPLETE_LLM_REQUEST_COMPLETED, Some m)] \<and>
          dom m = dom properties \<union> {''modelId'', ''provider'', ''usedFim''} \<and>
          m ''modelId'' = Some (optString (modelId context)) \<and>
          m ''provider'' = Some (optString (provider context)) \<and>
          m ''usedFim'' = Some (JBool (usedFim context)) \<and>
          (\<forall>k. k \<notin> {''modelId'', ''provider'', ''usedFim''} \<longrightarrow> m k = properties k)) \<and>
     (\<exists>m. calls (snd (captureLlmRequestFailed X properties context w)) =
            calls w @ [(CHAT_AUTOCOMPLETE_LLM_REQUEST_FAILED, Some m)] \<and>
          dom m = dom properties \<union> {''modelId'', ''provider'', ''usedFim''} \<and>
          m ''modelId'' = Some (optString (modelId context)) \<and>
          m ''provider'' = Some (optString (provider context)) \<and>
          m ''usedFim'' = Some (JBool (usedFim context)) \<and>
          (\<forall>k. k \<notin> {''modelId'', ''provider'', ''usedFim''} \<longrightarrow> m k = properties k)) \<and>
     (\<exists>m. calls (snd (captureSuggestionReturned X context suggestionLength w)) =
            calls w @ [(CHAT_AUTOCOMPLETE_SUGGESTION_RETURNED, Some m)] \<and>
          dom m = {''modelId'', ''provider'', ''usedFim'', ''suggestionLength''} \<and>
          m ''modelId'' = Some (optString (modelId context)) \<and>
          m ''provider'' = Some (optString (provider context)) \<and>
          m ''usedFim'' = Some (JBool (usedFim context)) \<and>
          m ''suggestionLength'' = Some (JNum suggestionLength)) \<and>
     (\<exists>m. calls (snd (captureSuggestionFiltered X reason context w)) =
            calls w @ [(CHAT_AUTOCOMPLETE_SUGGESTION_FILTERED, Some m)] \<and>
          dom m = {''reason'', ''modelId'', ''provider'', ''usedFim''} \<and>
          m ''reason'' = Some (JStr (filterReasonString reason)) \<and>
          m ''modelId'' = Some (optString (modelId context)) \<and>
          m ''provider'' = Some (optString (provider context)) \<and>
          m ''usedFim'' = Some (JBool (usedFim context))) \<and>
     (\<exists>m. calls (snd (captureSuggestionAccepted X suggestionLength w)) =
            calls w @ [(CHAT_AUTOCOMPLETE_SUGGESTION_ACCEPTED, Some m)] \<and>
          dom m = {''suggestionLength''} \<and>
          m ''suggestionLength'' = Some (JNum suggestionLength)) \<and>
     (\<exists>m. calls (snd (captureSuggestionDismissed X dismissReason w)) =
            calls w @ [(CHAT_AUTOCOMPLETE_SUGGESTION_DISMISSED, Some m)] \<and>
          dom m = {''dismissReason''} \<and>
          m ''dismissReason'' = Some (JStr (dismissReasonString dismissReason)))"
  unfolding capture_defs captureEvent_calls [OF assms]
  by (intro conjI; (intro exI conjI, rule refl); (simp; fail | auto))

theorem capture_forwards_exactly_once_witness:
  "hasInstance sinkPresent \<and>
   (\<exists>m. calls (snd (captureSuggestionRequested mockSink mockContext 42 sinkPresent)) =
          [(CHAT_AUTOCOMPLETE_SUGGESTION_REQUESTED, Some m)] \<and>
        dom m = {''modelId'', ''provider'', ''usedFim'', ''hasVisibleCodeContext'',
                 ''hasClipboardContext'', ''userTextLength''} \<and>
        m ''modelId'' = Some (JStr ''test-model'') \<and>
        m ''provider'' = Some (JStr ''test-provider'') \<and>
        m ''usedFim'' = Some (JBool True) \<and>
        m ''hasVisibleCodeContext'' = Some (JBool True) \<and>
        m ''hasClipboardContext'' = Some (JBool False) \<and>
        m ''userTextLength'' = Some (JNum 42)) \<and>
   (\<exists>m. calls (snd (captureSuggestionFiltered mockSink ModelNotLoaded mockContext sinkPresent)) =
          [(CHAT_AUTOCOMPLETE_SUGGESTION_FILTERED, Some m)] \<and>
        dom m = {''reason'', ''modelId'', ''provider'', ''usedFim''} \<and>
        m ''reason'' = Some (JStr ''model_not_loaded'') \<and>
        m ''modelId'' = Some (JStr ''test-model'') \<and>
        m ''provider'' = Some (JStr ''test-provider'') \<and>
        m ''usedFim'' = Some (JBool True))"
proof -
  have h: "hasInstance sinkPresent"
    by (simp add: hasInstance_def sinkPresent_def)
  have c: "calls sinkPresent = []"
    by (simp add: sinkPresent_def)
  show ?thesis
    using h capture_forwards_exactly_once [OF h, of mockSink mockContext 42 Map.empty 25
        ModelNotLoaded Timeout]
    by (simp add: c mockContext_def)
qed

text \<open>
  C2. When the sink does not exist, every call of a public operation returns normally and
  leaves the whole state as it was: no call of the sink is recorded, nothing is logged,
  nothing is queued.
\<close>

theorem absent_sink_silent_noop:
  "\<not> hasInstance w \<Longrightarrow> invoke X c w = (Normal, w)"
  by (cases c) (simp_all add: capture_defs captureEvent_absent)

theorem absent_sink_silent_noop_witness:
  "\<not> hasInstance sinkAbsent \<and>
   invoke throwingSink (SuggestionRequested mockContext 10) sinkAbsent = (Normal, sinkAbsent) \<and>
   calls (snd (invoke throwingSink (SuggestionDismissed Timeout) sinkAbsent)) = [] \<and>
   console (snd (invoke throwingSink (SuggestionDismissed Timeout) sinkAbsent)) = []"
proof -
  have h: "\<not> hasInstance sinkAbsent"
    by (simp add: hasInstance_def sinkAbsent_def)
  show ?thesis
    using h absent_sink_silent_noop [OF h, of throwingSink "SuggestionRequested mockContext 10"]
      absent_sink_silent_noop [OF h, of throwingSink "SuggestionDismissed Timeout"]
    by (simp add: sinkAbsent_def)
qed

text \<open>
  C3, as amended. The private method \<^verbatim>\<open>captureEvent\<close> has no failure of its own and catches
  none: it throws exactly when the sink exists and the sink's \<^verbatim>\<open>captureEvent\<close> throws, and
  then it throws the sink's value. With no sink, or with a sink whose call returns, it
  returns normally. It writes its log line exactly when the sink exists and the sink's call
  returned: when the sink throws, no line is written.
\<close>

theorem captureEvent_throws_exactly_the_sink_failure:
  "(fst (captureEvent X event properties w) = Throw e \<longleftrightarrow>
      (\<exists>s. telemetryInstance w = Some s \<and>
           fst (sinkCaptureEvent X s event properties) = Throw e)) \<and>
   console (snd (captureEvent X event properties w)) =
     (if hasInstance w \<and> fst (captureEvent X event properties w) = Normal
      then console w @
             [(''Chat Autocomplete Telemetry event: '' @ eventValue X event, properties)]
      else console w)"
proof (rule conjI)
  show "fst (captureEvent X event properties w) = Throw e \<longleftrightarrow>
      (\<exists>s. telemetryInstance w = Some s \<and>
           fst (sinkCaptureEvent X s event properties) = Throw e)"
    by (auto simp: captureEvent_def sinkCall_def
        split: option.splits prod.splits completion.splits)
  show "console (snd (captureEvent X event properties w)) =
     (if hasInstance w \<and> fst (captureEvent X event properties w) = Normal
      then console w @
             [(''Chat Autocomplete Telemetry event: '' @ eventValue X event, properties)]
      else console w)"
    by (rule captureEvent_console)
qed

theorem captureEvent_throws_exactly_the_sink_failure_witness:
  "hasInstance sinkPresent \<and>
   fst (captureEvent throwingSink CHAT_AUTOCOMPLETE_SUGGESTION_DISMISSED None sinkPresent) =
     Throw (JStr ''sink failure'') \<and>
   console (snd (captureEvent throwingSink CHAT_AUTOCOMPLETE_SUGGESTION_DISMISSED None
                   sinkPresent)) = [] \<and>
   fst (captureEvent mockSink CHAT_AUTOCOMPLETE_SUGGESTION_DISMISSED None sinkPresent) = Normal \<and>
   console (snd (captureEvent mockSink CHAT_AUTOCOMPLETE_SUGGESTION_DISMISSED None
                   sinkPresent)) =
     [(''Chat Autocomplete Telemetry event: CHAT_AUTOCOMPLETE_SUGGESTION_DISMISSED'', None)]"
proof -
  let ?ev = CHAT_AUTOCOMPLETE_SUGGESTION_DISMISSED
  let ?none = "None :: int props option"
  have h: "hasInstance sinkPresent"
    by (simp add: hasInstance_def sinkPresent_def)
  have empty: "console sinkPresent = []"
    by (simp add: sinkPresent_def)
  have sink: "telemetryInstance sinkPresent = Some () \<and>
      fst (sinkCaptureEvent throwingSink () ?ev ?none) = Throw (JStr ''sink failure'')"
    by (simp add: sinkPresent_def throwingSink_def)
  note throwing = captureEvent_throws_exactly_the_sink_failure
    [where X = throwingSink and event = ?ev and properties = ?none and w = sinkPresent
       and e = "JStr ''sink failure''"]
  have thrown: "fst (captureEvent throwingSink ?ev ?none sinkPresent) = Throw (JStr ''sink failure'')"
    using throwing [THEN conjunct1] sink by blast
  have silent: "console (snd (captureEvent throwingSink ?ev ?none sinkPresent)) = []"
    using throwing [THEN conjunct2] by (simp add: thrown empty)
  have name: "eventValue mockSink = memberName"
    by (simp add: mockSink_def)
  have returned: "fst (captureEvent mockSink ?ev ?none sinkPresent) = Normal"
    by (simp add: captureEvent_def sinkCall_def mockSink_def sinkPresent_def)
  note returning = captureEvent_throws_exactly_the_sink_failure
    [where X = mockSink and event = ?ev and properties = ?none and w = sinkPresent
       and e = "JStr ''sink failure''"]
  have logged: "console (snd (captureEvent mockSink ?ev ?none sinkPresent)) =
      [(''Chat Autocomplete Telemetry event: CHAT_AUTOCOMPLETE_SUGGESTION_DISMISSED'', None)]"
    using returning [THEN conjunct2] by (simp add: returned empty h name)
  from h thrown silent returned logged show ?thesis
    by (intro conjI)
qed

text \<open>The claim as stated (never throws, also when the sink's call is executed) fails with a
  sink that throws.\<close>

theorem captureEvent_never_throws_counterexample:
  "fst (captureEvent throwingSink CHAT_AUTOCOMPLETE_SUGGESTION_ACCEPTED
          (Some [''suggestionLength'' \<mapsto> JNum 30]) sinkPresent) =
   Throw (JStr ''sink failure'')"
  by (simp add: captureEvent_def sinkCall_def throwingSink_def sinkPresent_def)

text \<open>
  C4. When \<^verbatim>\<open>properties\<close> holds the key \<^verbatim>\<open>latencyMs\<close> and no other, the mapping that
  \<^verbatim>\<open>captureLlmRequestCompleted\<close> forwards has exactly the keys \<^verbatim>\<open>latencyMs\<close>, \<^verbatim>\<open>modelId\<close>,
  \<^verbatim>\<open>provider\<close> and \<^verbatim>\<open>usedFim\<close>: \<^verbatim>\<open>inputTokens\<close> and \<^verbatim>\<open>outputTokens\<close> are absent, not present
  with the value \<^verbatim>\<open>undefined\<close>.
\<close>

theorem llm_completed_latency_only:
  assumes "hasInstance w" and "dom properties = {''latencyMs''}"
  shows
    "\<exists>m. calls (snd (captureLlmRequestCompleted X properties context w)) =
           calls w @ [(CHAT_AUTOCOMPLETE_LLM_REQUEST_COMPLETED, Some m)] \<and>
         dom m = {''latencyMs'', ''modelId'', ''provider'', ''usedFim''} \<and>
         m ''latencyMs'' = properties ''latencyMs'' \<and>
         m ''inputTokens'' = None \<and> m ''outputTokens'' = None"
proof -
  have "''inputTokens'' \<notin> dom properties" "''outputTokens'' \<notin> dom properties"
    unfolding assms(2) by simp_all
  then have absent: "properties ''inputTokens'' = None" "properties ''outputTokens'' = None"
    by (simp_all add: domIff)
  have keys: "dom (properties(''modelId'' \<mapsto> optString (modelId context),
      ''provider'' \<mapsto> optString (provider context), ''usedFim'' \<mapsto> JBool (usedFim context))) =
      {''latencyMs'', ''modelId'', ''provider'', ''usedFim''}"
    unfolding dom_fun_upd assms(2) by auto
  show ?thesis
    unfolding captureLlmRequestCompleted_def captureEvent_calls [OF assms(1)]
    using absent keys by simp
qed

theorem llm_completed_latency_only_witness:
  "hasInstance sinkPresent \<and> dom [''latencyMs'' \<mapsto> JNum (150 :: int)] = {''latencyMs''} \<and>
   (\<exists>m. calls (snd (captureLlmRequestCompleted mockSink [''latencyMs'' \<mapsto> JNum 150]
                      mockContext sinkPresent)) =
          [(CHAT_AUTOCOMPLETE_LLM_REQUEST_COMPLETED, Some m)] \<and>
        dom m = {''latencyMs'', ''modelId'', ''provider'', ''usedFim''} \<and>
        m ''latencyMs'' = Some (JNum 150) \<and>
        m ''inputTokens'' = None \<and> m ''outputTokens'' = None)"
proof -
  have h: "hasInstance sinkPresent"
    by (simp add: hasInstance_def sinkPresent_def)
  have d: "dom [''latencyMs'' \<mapsto> JNum (150 :: int)] = {''latencyMs''}"
    by simp
  have c: "calls sinkPresent = []"
    by (simp add: sinkPresent_def)
  show ?thesis
    using h llm_completed_latency_only [OF h d, of mockSink mockContext]
    by (simp add: c)
qed

text \<open>
  C5. In each of the five operations that copy fields of the context, a context whose
  \<^verbatim>\<open>modelId\<close> is \<^verbatim>\<open>undefined\<close> gives a mapping that holds the key \<^verbatim>\<open>modelId\<close> with the value
  \<^verbatim>\<open>undefined\<close>: the key is not left out and no other value stands in. The same holds for
  \<^verbatim>\<open>provider\<close>.
\<close>

theorem undefined_context_fields_pass_through:
  assumes "hasInstance w"
  shows
    "(\<exists>m. calls (snd (captureSuggestionRequested X context userTextLength w)) =
            calls w @ [(CHAT_AUTOCOMPLETE_SUGGESTION_REQUESTED, Some m)] \<and>
          (modelId context = None \<longrightarrow> m ''modelId'' = Some JUndefined) \<and>
          (provider context = None \<longrightarrow> m ''provider'' = Some JUndefined)) \<and>
     (\<exists>m. calls (snd (captureLlmRequestCompleted X properties context w)) =
            calls w @ [(CHAT_AUTOCOMPLETE_LLM_REQUEST_COMPLETED, Some m)] \<and>
          (modelId context = None \<longrightarrow> m ''modelId'' = Some JUndefined) \<and>
          (provider context = None \<longrightarrow> m ''provider'' = Some JUndefined)) \<and>
     (\<exists>m. calls (snd (captureLlmRequestFailed X properties context w)) =
            calls w @ [(CHAT_AUTOCOMPLETE_LLM_REQUEST_FAILED, Some m)] \<and>
          (modelId context = None \<longrightarrow> m ''modelId'' = Some JUndefined) \<and>
          (provider context = None \<longrightarrow> m ''provider'' = Some JUndefined)) \<and>
     (\<exists>m. calls (snd (captureSuggestionReturned X context suggestionLength w)) =
            calls w @ [(CHAT_AUTOCOMPLETE_SUGGESTION_RETURNED, Some m)] \<and>
          (modelId context = None \<longrightarrow> m ''modelId'' = Some JUndefined) \<and>
          (provider context = None \<longrightarrow> m ''provider'' = Some JUndefined)) \<and>
     (\<exists>m. calls (snd (captureSuggestionFiltered X reason context w)) =
            calls w @ [(CHAT_AUTOCOMPLETE_SUGGESTION_FILTERED, Some m)] \<and>
          (modelId context = None \<longrightarrow> m ''modelId'' = Some JUndefined) \<and>
          (provider context = None \<longrightarrow> m ''provider'' = Some JUndefined))"
  unfolding captureSuggestionRequested_def captureLlmRequestCompleted_def
    captureLlmRequestFailed_def captureSuggestionReturned_def captureSuggestionFiltered_def
    captureEvent_calls [OF assms]
  by simp

theorem undefined_context_fields_pass_through_witness:
  "hasInstance sinkPresent \<and> modelId minimalContext = None \<and> provider minimalContext = None \<and>
   (\<exists>m. calls (snd (captureSuggestionRequested mockSink minimalContext 5 sinkPresent)) =
          [(CHAT_AUTOCOMPLETE_SUGGESTION_REQUESTED, Some m)] \<and>
        m ''modelId'' = Some JUndefined \<and> m ''provider'' = Some JUndefined)"
proof -
  have h: "hasInstance sinkPresent"
    by (simp add: hasInstance_def sinkPresent_def)
  have c: "calls sinkPresent = []"
    by (simp add: sinkPresent_def)
  have ctx: "modelId minimalContext = None" "provider minimalContext = None"
    by (simp_all add: minimalContext_def)
  from undefined_context_fields_pass_through [OF h, of mockSink minimalContext 5]
  have "\<exists>m. calls (snd (captureSuggestionRequested mockSink minimalContext 5 sinkPresent)) =
            [(CHAT_AUTOCOMPLETE_SUGGESTION_REQUESTED, Some m)] \<and>
          m ''modelId'' = Some JUndefined \<and> m ''provider'' = Some JUndefined"
    unfolding c ctx append_Nil by simp
  with h ctx show ?thesis by simp
qed

text \<open>
  C6. The mappings that \<^verbatim>\<open>captureSuggestionAccepted\<close> and \<^verbatim>\<open>captureSuggestionDismissed\<close>
  forward hold none of the keys \<^verbatim>\<open>modelId\<close>, \<^verbatim>\<open>provider\<close> and \<^verbatim>\<open>usedFim\<close>, whatever the
  arguments; \<^verbatim>\<open>captureSuggestionDismissed("timeout")\<close> forwards the mapping with the one key
  \<^verbatim>\<open>dismissReason\<close> and the value \<^verbatim>\<open>"timeout"\<close>.
\<close>

theorem accepted_dismissed_omit_context:
  assumes "hasInstance w"
  shows
    "(\<exists>m. calls (snd (captureSuggestionAccepted X suggestionLength w)) =
            calls w @ [(CHAT_AUTOCOMPLETE_SUGGESTION_ACCEPTED, Some m)] \<and>
          m ''modelId'' = None \<and> m ''provider'' = None \<and> m ''usedFim'' = None) \<and>
     (\<exists>m. calls (snd (captureSuggestionDismissed X dismissReason w)) =
            calls w @ [(CHAT_AUTOCOMPLETE_SUGGESTION_DISMISSED, Some m)] \<and>
          m ''modelId'' = None \<and> m ''provider'' = None \<and> m ''usedFim'' = None) \<and>
     calls (snd (captureSuggestionDismissed X Timeout w)) =
       calls w @ [(CHAT_AUTOCOMPLETE_SUGGESTION_DISMISSED,
                   Some [''dismissReason'' \<mapsto> JStr ''timeout''])]"
  unfolding captureSuggestionAccepted_def captureSuggestionDismissed_def
    captureEvent_calls [OF assms]
  by simp

theorem accepted_dismissed_omit_context_witness:
  "hasInstance sinkPresent \<and>
   (\<exists>m. calls (snd (captureSuggestionAccepted mockSink 30 sinkPresent)) =
          [(CHAT_AUTOCOMPLETE_SUGGESTION_ACCEPTED, Some m)] \<and>
        m ''modelId'' = None \<and> m ''provider'' = None \<and> m ''usedFim'' = None) \<and>
   calls (snd (captureSuggestionDismissed mockSink Timeout sinkPresent)) =
     [(CHAT_AUTOCOMPLETE_SUGGESTION_DISMISSED, Some [''dismissReason'' \<mapsto> JStr ''timeout''])]"
proof -
  have h: "hasInstance sinkPresent"
    by (simp add: hasInstance_def sinkPresent_def)
  have c: "calls sinkPresent = []"
    by (simp add: sinkPresent_def)
  show ?thesis
    using h accepted_dismissed_omit_context [OF h, of mockSink 30 Escape]
    by (simp add: c)
qed

section \<open>The shape of the forwarded mapping\<close>

lemma allValues_empty: "allValues P Map.empty"
  by (simp add: allValues_def)

lemma allValues_upd: "P v \<Longrightarrow> allValues P m \<Longrightarrow> allValues P (m(k \<mapsto> v))"
  by (simp add: allValues_def)

lemma primitiveOrUndefined_optString: "primitiveOrUndefined (optString s)"
  by (cases s) simp_all

lemma isNumber_primitive: "isNumber x \<Longrightarrow> x = Some v \<Longrightarrow> primitiveOrUndefined v"
  by (cases v) simp_all

lemma isString_primitive: "isString x \<Longrightarrow> x = Some v \<Longrightarrow> primitiveOrUndefined v"
  by (cases v) simp_all

lemma isOptionalNumber_primitive:
  "isOptionalNumber x \<Longrightarrow> x = Some v \<Longrightarrow> primitiveOrUndefined v"
  by (cases v) simp_all

lemma isNumber_dom: "isNumber (p k) \<Longrightarrow> k \<in> dom p"
  by (cases "p k") auto

lemma isString_dom: "isString (p k) \<Longrightarrow> k \<in> dom p"
  by (cases "p k") auto

lemma llmCompletedProperties_values:
  assumes "llmCompletedProperties p"
  shows "allValues primitiveOrUndefined p"
  unfolding allValues_def
proof (intro allI impI)
  fix k v
  assume kv: "p k = Some v"
  then have "k \<in> dom p" by (simp add: domIff)
  with assms have "k = ''latencyMs'' \<or> k = ''inputTokens'' \<or> k = ''outputTokens''"
    unfolding llmCompletedProperties_def by blast
  with assms kv show "primitiveOrUndefined v"
    unfolding llmCompletedProperties_def
    by (blast intro: isNumber_primitive isOptionalNumber_primitive)
qed

lemma llmFailedProperties_values:
  assumes "llmFailedProperties p"
  shows "allValues primitiveOrUndefined p"
  unfolding allValues_def
proof (intro allI impI)
  fix k v
  assume kv: "p k = Some v"
  then have "k \<in> dom p" by (simp add: domIff)
  with assms have "k = ''latencyMs'' \<or> k = ''error''"
    unfolding llmFailedProperties_def by blast
  with assms kv show "primitiveOrUndefined v"
    unfolding llmFailedProperties_def
    by (blast intro: isNumber_primitive isString_primitive)
qed

lemma llmFailedProperties_dom:
  "llmFailedProperties p \<Longrightarrow> dom p = {''latencyMs'', ''error''}"
  unfolding llmFailedProperties_def
  by (blast dest: isNumber_dom isString_dom)

lemma llmCompletedProperties_dom:
  "llmCompletedProperties p \<Longrightarrow>
   ''latencyMs'' \<in> dom p \<and> dom p \<subseteq> {''latencyMs'', ''inputTokens'', ''outputTokens''}"
  unfolding llmCompletedProperties_def
  by (blast dest: isNumber_dom)

lemma spread_keys_between:
  "a \<in> D \<Longrightarrow> D \<subseteq> {a, i, j} \<Longrightarrow>
   {a, x, y, z} \<subseteq> insert z (insert y (insert x D)) \<and>
   insert z (insert y (insert x D)) \<subseteq> {a, x, y, z} \<union> {i, j}"
  by blast

lemma spread_keys_exact:
  "D = {a, e} \<Longrightarrow> insert z (insert y (insert x D)) = {a, e, x, y, z}"
  by blast

lemmas flat_intros =
  allValues_empty allValues_upd primitiveOrUndefined_optString

text \<open>
  C7, as amended. For arguments of the declared types, every value of the forwarded mapping
  is \<^verbatim>\<open>undefined\<close>, a string, a number or a boolean, never an object, and each operation
  forwards one fixed set of keys, but for \<^verbatim>\<open>inputTokens\<close> and \<^verbatim>\<open>outputTokens\<close>, which
  \<^verbatim>\<open>captureLlmRequestCompleted\<close> forwards when its argument holds them.
\<close>

theorem forwarded_mapping_flat_and_uniform:
  assumes "hasInstance w"
    and "llmCompletedProperties completed" and "llmFailedProperties failed"
  shows
    "(\<exists>m. calls (snd (captureSuggestionRequested X context userTextLength w)) =
            calls w @ [(CHAT_AUTOCOMPLETE_SUGGESTION_REQUESTED, Some m)] \<and>
          allValues primitiveOrUndefined m \<and>
          dom m = {''modelId'', ''provider'', ''usedFim'', ''hasVisibleCodeContext'',
                   ''hasClipboardContext'', ''userTextLength''}) \<and>
     (\<exists>m. calls (snd (captureLlmRequestCompleted X completed context w)) =
            calls w @ [(CHAT_AUTOCOMPLETE_LLM_REQUEST_COMPLETED, Some m)] \<and>
          allValues primitiveOrUndefined m \<and>
          {''latencyMs'', ''modelId'', ''provider'', ''usedFim''} \<subseteq> dom m \<and>
          dom m \<subseteq> {''latencyMs'', ''modelId'', ''provider'', ''usedFim''} \<union>
                   {''inputTokens'', ''outputTokens''}) \<and>
     (\<exists>m. calls (snd (captureLlmRequestFailed X failed context w)) =
            calls w @ [(CHAT_AUTOCOMPLETE_LLM_REQUEST_FAILED, Some m)] \<and>
          allValues primitiveOrUndefined m \<and>
          dom m = {''latencyMs'', ''error'', ''modelId'', ''provider'', ''usedFim''}) \<and>
     (\<exists>m. calls (snd (captureSuggestionReturned X context suggestionLength w)) =
            calls w @ [(CHAT_AUTOCOMPLETE_SUGGESTION_RETURNED, Some m)] \<and>
          allValues primitiveOrUndefined m \<and>
          dom m = {''modelId'', ''provider'', ''usedFim'', ''suggestionLength''}) \<and>
     (\<exists>m. calls (snd (captureSuggestionFiltered X reason context w)) =
            calls w @ [(CHAT_AUTOCOMPLETE_SUGGESTION_FILTERED, Some m)] \<and>
          allValues primitiveOrUndefined m \<and>
          dom m = {''reason'', ''modelId'', ''provider'', ''usedFim''}) \<and>
     (\<exists>m. calls (snd (captureSuggestionAccepted X suggestionLength w)) =
            calls w @ [(CHAT_AUTOCOMPLETE_SUGGESTION_ACCEPTED, Some m)] \<and>
          allValues primitiveOrUndefined m \<and>
          dom m = {''suggestionLength''}) \<and>
     (\<exists>m. calls (snd (captureSuggestionDismissed X dismissReason w)) =
            calls w @ [(CHAT_AUTOCOMPLETE_SUGGESTION_DISMISSED, Some m)] \<and>
          allValues primitiveOrUndefined m \<and>
          dom m = {''dismissReason''})"
proof -
  note flat = flat_intros
  have dc: "''latencyMs'' \<in> dom completed"
    "dom completed \<subseteq> {''latencyMs'', ''inputTokens'', ''outputTokens''}"
    using llmCompletedProperties_dom [OF assms(2)] by simp_all
  have df: "dom failed = {''latencyMs'', ''error''}"
    by (rule llmFailedProperties_dom [OF assms(3)])
  have requested:
    "allValues primitiveOrUndefined
       [''modelId'' \<mapsto> optString (modelId context),
        ''provider'' \<mapsto> optString (provider context),
        ''usedFim'' \<mapsto> JBool (usedFim context),
        ''hasVisibleCodeContext'' \<mapsto> JBool (hasVisibleCodeContext context),
        ''hasClipboardContext'' \<mapsto> JBool (hasClipboardContext context),
        ''userTextLength'' \<mapsto> JNum userTextLength]"
    by (intro flat) simp_all
  have spread:
    "allValues primitiveOrUndefined p \<Longrightarrow>
     allValues primitiveOrUndefined
       (p(''modelId'' \<mapsto> optString (modelId context),
          ''provider'' \<mapsto> optString (provider context),
          ''usedFim'' \<mapsto> JBool (usedFim context)))" for p :: "'a props"
    by (intro flat) simp_all
  have returned:
    "allValues primitiveOrUndefined
       [''modelId'' \<mapsto> optString (modelId context),
        ''provider'' \<mapsto> optString (provider context),
        ''usedFim'' \<mapsto> JBool (usedFim context),
        ''suggestionLength'' \<mapsto> JNum suggestionLength]"
    by (intro flat) simp_all
  have filtered:
    "allValues primitiveOrUndefined
       [''reason'' \<mapsto> JStr (filterReasonString reason),
        ''modelId'' \<mapsto> optString (modelId context),
        ''provider'' \<mapsto> optString (provider context),
        ''usedFim'' \<mapsto> JBool (usedFim context)]"
    by (intro flat) simp_all
  have accepted:
    "allValues primitiveOrUndefined [''suggestionLength'' \<mapsto> JNum suggestionLength]"
    by (intro flat) simp_all
  have dismissed:
    "allValues primitiveOrUndefined
       [''dismissReason'' \<mapsto> JStr (dismissReasonString dismissReason)]"
    by (intro flat) simp_all
  have keys_spread:
    "dom (p(''modelId'' \<mapsto> optString (modelId context),
          ''provider'' \<mapsto> optString (provider context),
          ''usedFim'' \<mapsto> JBool (usedFim context))) =
     insert ''usedFim'' (insert ''provider'' (insert ''modelId'' (dom p)))" for p :: "'a props"
    by simp
  have keys_completed:
    "{''latencyMs'', ''modelId'', ''provider'', ''usedFim''} \<subseteq>
       dom (completed(''modelId'' \<mapsto> optString (modelId context),
          ''provider'' \<mapsto> optString (provider context),
          ''usedFim'' \<mapsto> JBool (usedFim context)))"
    "dom (completed(''modelId'' \<mapsto> optString (modelId context),
          ''provider'' \<mapsto> optString (provider context),
          ''usedFim'' \<mapsto> JBool (usedFim context))) \<subseteq>
     {''latencyMs'', ''modelId'', ''provider'', ''usedFim''} \<union>
       {''inputTokens'', ''outputTokens''}"
    unfolding keys_spread using spread_keys_between [OF dc] by (rule conjunct1, rule conjunct2)
  have keys_failed:
    "dom (failed(''modelId'' \<mapsto> optString (modelId context),
          ''provider'' \<mapsto> optString (provider context),
          ''usedFim'' \<mapsto> JBool (usedFim context))) =
     {''latencyMs'', ''error'', ''modelId'', ''provider'', ''usedFim''}"
    unfolding keys_spread by (rule spread_keys_exact [OF df])
  show ?thesis
    unfolding capture_defs captureEvent_calls [OF assms(1)]
    apply (intro conjI)
    subgoal by (intro exI conjI, rule refl, rule requested) auto
    subgoal
      by (intro exI conjI, rule refl, rule spread [OF llmCompletedProperties_values [OF assms(2)]],
          rule keys_completed(1), rule keys_completed(2))
    subgoal
      by (intro exI conjI, rule refl, rule spread [OF llmFailedProperties_values [OF assms(3)]],
          rule keys_failed)
    subgoal by (intro exI conjI, rule refl, rule returned) auto
    subgoal by (intro exI conjI, rule refl, rule filtered) auto
    subgoal by (intro exI conjI, rule refl, rule accepted) auto
    subgoal by (intro exI conjI, rule refl, rule dismissed) auto
    done
qed


theorem forwarded_mapping_flat_and_uniform_witness:
  "hasInstance sinkPresent \<and>
   llmCompletedProperties [''latencyMs'' \<mapsto> JNum (150 :: int), ''inputTokens'' \<mapsto> JNum 100] \<and>
   llmFailedProperties
     [''latencyMs'' \<mapsto> JNum (100 :: int), ''error'' \<mapsto> JStr ''Network timeout''] \<and>
   (\<exists>m. calls (snd (captureSuggestionRequested mockSink minimalContext 5 sinkPresent)) =
          [(CHAT_AUTOCOMPLETE_SUGGESTION_REQUESTED, Some m)] \<and>
        allValues primitiveOrUndefined m \<and>
        dom m = {''modelId'', ''provider'', ''usedFim'', ''hasVisibleCodeContext'',
                 ''hasClipboardContext'', ''userTextLength''})"
proof -
  let ?completed = "[''latencyMs'' \<mapsto> JNum (150 :: int), ''inputTokens'' \<mapsto> JNum 100]"
  let ?failed = "[''latencyMs'' \<mapsto> JNum (100 :: int), ''error'' \<mapsto> JStr ''Network timeout'']"
  have h: "hasInstance sinkPresent"
    by (simp add: hasInstance_def sinkPresent_def)
  have c: "calls sinkPresent = []"
    by (simp add: sinkPresent_def)
  have pc: "llmCompletedProperties ?completed"
    by (simp add: llmCompletedProperties_def)
  have pf: "llmFailedProperties ?failed"
    by (simp add: llmFailedProperties_def)
  note all = forwarded_mapping_flat_and_uniform [OF h pc pf, of mockSink minimalContext 5 25
      ModelNotLoaded Timeout, unfolded c append_Nil]
  from h pc pf conjunct1 [OF all] show ?thesis
    by (intro conjI)
qed

text \<open>The claim as stated (every value a string, a number or a boolean) fails for the
  context of the test "should handle context without optional fields": the mapping holds
  \<^verbatim>\<open>undefined\<close> under \<^verbatim>\<open>modelId\<close>.\<close>

theorem flat_string_number_boolean_counterexample:
  "calls (snd (captureSuggestionRequested mockSink minimalContext 5 sinkPresent)) =
     [(CHAT_AUTOCOMPLETE_SUGGESTION_REQUESTED,
       Some [''modelId'' \<mapsto> JUndefined, ''provider'' \<mapsto> JUndefined,
             ''usedFim'' \<mapsto> JBool False, ''hasVisibleCodeContext'' \<mapsto> JBool False,
             ''hasClipboardContext'' \<mapsto> JBool False, ''userTextLength'' \<mapsto> JNum 5])] \<and>
   \<not> allValues stringNumberBoolean
       [''modelId'' \<mapsto> JUndefined, ''provider'' \<mapsto> JUndefined,
        ''usedFim'' \<mapsto> JBool False, ''hasVisibleCodeContext'' \<mapsto> JBool False,
        ''hasClipboardContext'' \<mapsto> JBool False, ''userTextLength'' \<mapsto> JNum (5 :: int)]"
proof (rule conjI)
  have h: "hasInstance sinkPresent"
    by (simp add: hasInstance_def sinkPresent_def)
  show "calls (snd (captureSuggestionRequested mockSink minimalContext 5 sinkPresent)) =
     [(CHAT_AUTOCOMPLETE_SUGGESTION_REQUESTED,
       Some [''modelId'' \<mapsto> JUndefined, ''provider'' \<mapsto> JUndefined,
             ''usedFim'' \<mapsto> JBool False, ''hasVisibleCodeContext'' \<mapsto> JBool False,
             ''hasClipboardContext'' \<mapsto> JBool False, ''userTextLength'' \<mapsto> JNum 5])]"
    unfolding captureSuggestionRequested_def captureEvent_calls [OF h]
    by (simp add: sinkPresent_def minimalContext_def)
next
  let ?m = "[''modelId'' \<mapsto> JUndefined, ''provider'' \<mapsto> JUndefined,
        ''usedFim'' \<mapsto> JBool False, ''hasVisibleCodeContext'' \<mapsto> JBool False,
        ''hasClipboardContext'' \<mapsto> JBool False, ''userTextLength'' \<mapsto> JNum (5 :: int)]"
  show "\<not> allValues stringNumberBoolean ?m"
  proof
    assume flat: "allValues stringNumberBoolean ?m"
    have "?m ''modelId'' = Some JUndefined"
      by simp
    from flat [unfolded allValues_def, rule_format, OF this]
    show False by simp
  qed
qed

section \<open>The diagnostic log\<close>





section \<open>What a call does to the objects it is given\<close>

lemmas at_defs =
  captureSuggestionRequestedAt_def captureLlmRequestCompletedAt_def
  captureLlmRequestFailedAt_def captureSuggestionReturnedAt_def
  captureSuggestionFilteredAt_def captureSuggestionAcceptedAt_def
  captureSuggestionDismissedAt_def

lemma captureEvent_forwards:
  "calls (snd (captureEvent X event properties w)) =
   calls w @ (if hasInstance w then [(event, properties)] else [])"
  by (simp add: captureEvent_calls captureEvent_absent)

lemma captureEvent_heap: "heap (snd (captureEvent X event properties st)) = heap st"
  by (auto simp: captureEvent_def sinkCall_def consoleLog_def
      split: option.splits prod.splits completion.splits)

text \<open>On a reporter and the object of a context of the declared type, the methods on
  references are the methods on values.\<close>

lemma getProp_contextObject:
  "getProp (contextObject c) ''modelId'' = optString (modelId c)"
  "getProp (contextObject c) ''provider'' = optString (provider c)"
  "getProp (contextObject c) ''usedFim'' = JBool (usedFim c)"
  "getProp (contextObject c) ''hasVisibleCodeContext'' = JBool (hasVisibleCodeContext c)"
  "getProp (contextObject c) ''hasClipboardContext'' = JBool (hasClipboardContext c)"
  by (cases "modelId c"; cases "provider c";
      simp add: getProp_def contextObject_def map_add_def)+

lemma at_typed_objects:
  assumes "heap st this = Some reporter" and "heap st r = Some (contextObject c)"
  shows "captureSuggestionRequestedAt X this r n st = captureSuggestionRequested X c n st"
    and "captureLlmRequestCompletedAt X this p r st = captureLlmRequestCompleted X p c st"
    and "captureLlmRequestFailedAt X this p r st = captureLlmRequestFailed X p c st"
    and "captureSuggestionReturnedAt X this r n st = captureSuggestionReturned X c n st"
    and "captureSuggestionFilteredAt X this reason r st = captureSuggestionFiltered X reason c st"
    and "captureSuggestionAcceptedAt X this n st = captureSuggestionAccepted X n st"
    and "captureSuggestionDismissedAt X this d st = captureSuggestionDismissed X d st"
  unfolding at_defs capture_defs assms option.case getProp_contextObject
  by (rule refl)+

lemma invokeAt_heap: "heap (snd (invokeAt X this c st)) = heap st"
  by (cases c) (simp_all add: at_defs captureEvent_heap split: option.splits)

lemma invokeAt_hasInstance: "hasInstance (snd (invokeAt X this c st)) = hasInstance st"
  by (cases c) (simp_all add: at_defs captureEvent_hasInstance split: option.splits)

lemma invokeAt_same:
  fixes st st' :: "('n, 's, 'z) program_scheme"
  assumes "heap st = heap st'" and "hasInstance st = hasInstance st'"
  shows "\<exists>es. calls (snd (invokeAt X this c st)) = calls st @ es \<and>
              calls (snd (invokeAt X' this c st')) = calls st' @ es"
  by (cases c) (simp_all add: at_defs captureEvent_forwards assms split: option.splits)

lemma runCallsAt_heap: "heap (runCallsAt X this cs st) = heap st"
  by (induction cs arbitrary: st) (simp_all add: invokeAt_heap)

lemma runCallsAt_same:
  fixes st st' :: "('n, 's, 'z) program_scheme"
  assumes "heap st = heap st'" and "hasInstance st = hasInstance st'"
  shows "\<exists>es. calls (runCallsAt X this cs st) = calls st @ es \<and>
              calls (runCallsAt X' this cs st') = calls st' @ es"
  using assms
proof (induction cs arbitrary: st st')
  case Nil
  show ?case by simp
next
  case (Cons c cs)
  let ?s = "snd (invokeAt X this c st)" and ?s' = "snd (invokeAt X' this c st')"
  from invokeAt_same [OF Cons.prems, of X this c X'] obtain e where
    e: "calls ?s = calls st @ e" "calls ?s' = calls st' @ e"
    by blast
  have "heap ?s = heap ?s'" "hasInstance ?s = hasInstance ?s'"
    using Cons.prems by (simp_all add: invokeAt_heap invokeAt_hasInstance)
  from Cons.IH [OF this] obtain es where
    es: "calls (runCallsAt X this cs ?s) = calls ?s @ es"
      "calls (runCallsAt X' this cs ?s') = calls ?s' @ es"
    by blast
  show ?case
    by (intro exI [of _ "e @ es"]) (simp add: e es)
qed

text \<open>
  C9. The methods are given the context and the reporter by reference and could write to
  them; they do not. After a call of any of the seven methods the heap is the heap before
  the call: the context object and the reporter object (and every other object) hold the
  properties they held, also when the call throws. The same holds after any sequence of
  calls. The reporter holds nothing a call could depend on: from two states with the same
  heap that both have a sink, or both have none, the same call, and the same sequence of
  calls, adds the same entries to the record of the sink's calls, whatever the sinks do and
  whatever was forwarded or logged before.
\<close>

theorem operations_leave_context_and_reporter_unchanged:
  fixes st st' :: "('n, 's, 'z) program_scheme"
  shows
    "heap (snd (invokeAt X this c st)) = heap st \<and>
     heap (runCallsAt X this cs st) = heap st \<and>
     (heap st = heap st' \<and> hasInstance st = hasInstance st' \<longrightarrow>
        (\<exists>es. calls (snd (invokeAt X this c st)) = calls st @ es \<and>
              calls (snd (invokeAt X' this c st')) = calls st' @ es)) \<and>
     (heap st = heap st' \<and> hasInstance st = hasInstance st' \<longrightarrow>
        (\<exists>es. calls (runCallsAt X this cs st) = calls st @ es \<and>
              calls (runCallsAt X' this cs st') = calls st' @ es))"
  by (intro conjI impI invokeAt_heap runCallsAt_heap; elim conjE;
      (rule invokeAt_same | rule runCallsAt_same); assumption)

theorem operations_leave_context_and_reporter_unchanged_witness:
  "heap callerState 0 = Some Map.empty \<and>
   heap callerState 1 = Some (contextObject mockContext) \<and>
   heap (snd (invokeAt mockSink 0 (RequestedAt 1 10) callerState)) = heap callerState \<and>
   heap (runCallsAt mockSink 0 [RequestedAt 1 10, AcceptedAt 30] callerState) =
     heap callerState \<and>
   invokeAt mockSink 0 (RequestedAt 1 10) callerState =
     captureSuggestionRequested mockSink mockContext 10 callerState \<and>
   (\<exists>es. calls (snd (invokeAt mockSink 0 (RequestedAt 1 10) callerState)) = es \<and>
         calls (snd (invokeAt throwingSink 0 (RequestedAt 1 10)
                        (callerState\<lparr>calls := [(CHAT_AUTOCOMPLETE_SUGGESTION_ACCEPTED, None)]\<rparr>))) =
           [(CHAT_AUTOCOMPLETE_SUGGESTION_ACCEPTED, None)] @ es)"
proof -
  let ?c = "RequestedAt 1 10 :: int methodCall"
  let ?cs = "[?c, AcceptedAt 30]"
  let ?st' = "callerState\<lparr>calls := [(CHAT_AUTOCOMPLETE_SUGGESTION_ACCEPTED, None)]\<rparr>"
  have reporter: "heap callerState 0 = Some Map.empty"
    and ctx: "heap callerState 1 = Some (contextObject mockContext)"
    by (simp_all add: callerState_def)
  have same: "heap callerState = heap ?st' \<and> hasInstance callerState = hasInstance ?st'"
    by (simp add: hasInstance_def)
  have c: "calls callerState = []" "calls ?st' = [(CHAT_AUTOCOMPLETE_SUGGESTION_ACCEPTED, None)]"
    by (simp_all add: callerState_def)
  have typed: "invokeAt mockSink 0 ?c callerState =
      captureSuggestionRequested mockSink mockContext 10 callerState"
    unfolding invokeAt.simps by (rule at_typed_objects(1) [OF reporter ctx])
  note t = operations_leave_context_and_reporter_unchanged
    [where X = mockSink and this = 0 and c = ?c and st = callerState and cs = ?cs
       and st' = ?st' and X' = throwingSink]
  note one = t [THEN conjunct1]
  note many = t [THEN conjunct2, THEN conjunct1]
  note indep = t [THEN conjunct2, THEN conjunct2, THEN conjunct1, THEN mp, OF same,
      unfolded c append_Nil]
  from reporter ctx one many typed indep show ?thesis
    by (intro conjI)
qed

text \<open>
  C10. In \<^verbatim>\<open>captureLlmRequestCompleted\<close> and \<^verbatim>\<open>captureLlmRequestFailed\<close> the three context
  keys are written after the spread: whatever \<^verbatim>\<open>properties\<close> holds at run time, also under
  the keys \<^verbatim>\<open>modelId\<close>, \<^verbatim>\<open>provider\<close> and \<^verbatim>\<open>usedFim\<close>, the forwarded mapping holds the context's
  values under these three keys.
\<close>

theorem context_overrides_spread:
  assumes "hasInstance w"
  shows
    "(\<exists>m. calls (snd (captureLlmRequestCompleted X properties context w)) =
            calls w @ [(CHAT_AUTOCOMPLETE_LLM_REQUEST_COMPLETED, Some m)] \<and>
          m ''modelId'' = Some (optString (modelId context)) \<and>
          m ''provider'' = Some (optString (provider context)) \<and>
          m ''usedFim'' = Some (JBool (usedFim context))) \<and>
     (\<exists>m. calls (snd (captureLlmRequestFailed X properties context w)) =
            calls w @ [(CHAT_AUTOCOMPLETE_LLM_REQUEST_FAILED, Some m)] \<and>
          m ''modelId'' = Some (optString (modelId context)) \<and>
          m ''provider'' = Some (optString (provider context)) \<and>
          m ''usedFim'' = Some (JBool (usedFim context)))"
  unfolding captureLlmRequestCompleted_def captureLlmRequestFailed_def
    captureEvent_calls [OF assms]
  by simp

theorem context_overrides_spread_witness:
  "hasInstance sinkPresent \<and>
   (\<exists>m. calls (snd (captureLlmRequestFailed mockSink
                      [''latencyMs'' \<mapsto> JNum 100, ''error'' \<mapsto> JStr ''Network timeout'',
                       ''modelId'' \<mapsto> JStr ''from-caller'', ''provider'' \<mapsto> JNull,
                       ''usedFim'' \<mapsto> JBool True]
                      minimalContext sinkPresent)) =
          [(CHAT_AUTOCOMPLETE_LLM_REQUEST_FAILED, Some m)] \<and>
        m ''modelId'' = Some JUndefined \<and>
        m ''provider'' = Some JUndefined \<and>
        m ''usedFim'' = Some (JBool False))"
proof -
  let ?p = "[''latencyMs'' \<mapsto> JNum 100, ''error'' \<mapsto> JStr ''Network timeout'',
             ''modelId'' \<mapsto> JStr ''from-caller'', ''provider'' \<mapsto> JNull,
             ''usedFim'' \<mapsto> JBool True] :: int props"
  have h: "hasInstance sinkPresent"
    by (simp add: hasInstance_def sinkPresent_def)
  have c: "calls sinkPresent = []"
    by (simp add: sinkPresent_def)
  have ctx: "optString (modelId minimalContext) = (JUndefined :: int jsval)"
    "optString (provider minimalContext) = (JUndefined :: int jsval)"
    "usedFim minimalContext = False"
    by (simp_all add: minimalContext_def)
  from context_overrides_spread [OF h, of mockSink ?p minimalContext]
  have "\<exists>m. calls (snd (captureLlmRequestFailed mockSink ?p minimalContext sinkPresent)) =
            [(CHAT_AUTOCOMPLETE_LLM_REQUEST_FAILED, Some m)] \<and>
          m ''modelId'' = Some JUndefined \<and>
          m ''provider'' = Some JUndefined \<and>
          m ''usedFim'' = Some (JBool False)"
    unfolding c ctx append_Nil by (rule conjunct2)
  with h show ?thesis by (rule conjI)
qed

end
